theory Spec2Isabelle
  imports Main
begin

section \<open>Data model (src/types/index.ts)\<close>

text \<open>
  The interfaces of \<^verbatim>\<open>src/types/index.ts\<close> become records. Several interfaces share
  column names (\<^verbatim>\<open>id\<close>, \<^verbatim>\<open>chat_id\<close>, \<^verbatim>\<open>user_id\<close>), so every field carries a
  one-letter prefix of its interface. An optional field (\<^verbatim>\<open>name?: string\<close>) is an
  \<open>option\<close>; \<^verbatim>\<open>undefined\<close> and \<^verbatim>\<open>null\<close> are \<open>None\<close>.
\<close>

datatype presence = Online | Away | Offline

datatype chat_type = Direct | Group

datatype message_type = TextMsg | ImageMsg | FileMsg | VoiceMsg

record User =
  u_id :: string
  u_email :: string
  u_display_name :: "string option"
  u_avatar_url :: "string option"
  u_status :: presence
  u_last_seen :: "string option"
  u_theme :: string
  u_notifications_enabled :: bool
  u_created_at :: string
  u_updated_at :: string

record UserProfile =
  up_id :: string
  up_display_name :: "string option"
  up_avatar_url :: "string option"

text \<open>
  A row of \<^verbatim>\<open>chat_participants\<close> as the select of \<^verbatim>\<open>fetchChats\<close> embeds it:
  \<^verbatim>\<open>user_id, is_admin, users(id, display_name, avatar_url, status)\<close>.
\<close>

record ChatParticipant =
  p_user_id :: string
  p_is_admin :: bool
  p_users :: "UserProfile option"

text \<open>
  The columns of a \<^verbatim>\<open>chats\<close> row; the row that \<^verbatim>\<open>fetchChats\<close> receives adds the embedded
  \<^verbatim>\<open>chat_participants\<close>; the \<^verbatim>\<open>Chat\<close> kept in the store adds \<^verbatim>\<open>participants\<close>.
\<close>

record ChatColumns =
  c_id :: string
  c_type :: chat_type
  c_name :: "string option"
  c_avatar_url :: "string option"
  c_created_by :: string
  c_created_at :: string
  c_updated_at :: string

record ChatRow = ChatColumns +
  c_chat_participants :: "ChatParticipant list"

record Chat = ChatRow +
  c_participants :: "ChatParticipant list option"

record Message =
  m_id :: string
  m_chat_id :: string
  m_sender_id :: string
  m_text :: "string option"
  m_type :: message_type
  m_reply_to :: "string option"
  m_edited :: bool
  m_deleted :: bool
  m_created_at :: string
  m_updated_at :: string
  m_sender :: "UserProfile option"

record TypingIndicator =
  t_user_id :: string
  t_chat_id :: string
  t_user :: "User option"

section \<open>The store's state (interface ChatState, src/stores/chat.ts)\<close>

text \<open>
  \<^verbatim>\<open>messages: Record<string, Message[]>\<close> is a map from chat id to message list: the own
  keys of the object. A key that the object does not have of its own is \<open>None\<close>.
\<close>

record ChatState =
  chats :: "Chat list"
  activeChat :: "Chat option"
  messages :: "string \<rightharpoonup> Message list"
  typingUsers :: "TypingIndicator list"
  loading :: bool
  error :: "string option"

definition initial_state :: ChatState where
  "initial_state =
     \<lparr>chats = [], activeChat = None, messages = Map.empty, typingUsers = [],
      loading = False, error = None\<rparr>"

section \<open>The remote collaborator (the supabase client)\<close>

text \<open>
  Every request the store sends is a value of \<open>call\<close>; an operation returns the list of the
  requests it issued, in order. The payloads are the objects the source passes to
  \<^verbatim>\<open>insert\<close> and \<^verbatim>\<open>update\<close>.
\<close>

record AuthUser =
  au_id :: string

record MessageInsert =
  mi_chat_id :: string
  mi_sender_id :: string
  mi_text :: string
  mi_reply_to :: "string option"

record ChatInsert =
  ci_type :: chat_type
  ci_name :: "string option"
  ci_created_by :: string

text \<open>
  \<^verbatim>\<open>createDirectChat\<close> inserts participants without \<^verbatim>\<open>is_admin\<close> (\<open>None\<close>: the column is
  left to the backend); \<^verbatim>\<open>createGroupChat\<close> sets it.
\<close>

record ParticipantInsert =
  pi_chat_id :: string
  pi_user_id :: string
  pi_is_admin :: "bool option"

text \<open>The row shape of the pre-check of \<^verbatim>\<open>createDirectChat\<close>: \<^verbatim>\<open>id, chat_participants(user_id)\<close>.\<close>

record ParticipantRef =
  pr_user_id :: string

record DirectChatRow =
  d_id :: string
  d_chat_participants :: "ParticipantRef list"

datatype call =
    AuthGetUser
  | SelectChats
  | SelectMessages string
  | InsertMessage MessageInsert
  | UpdateChatUpdatedAt string string
  | SelectDirectChats
  | InsertChat ChatInsert
  | InsertParticipants "ParticipantInsert list"
  | SelectMessageById string

text \<open>
  What the remote answers. A supabase request resolves to \<^verbatim>\<open>{ data, error }\<close>: a request
  whose error the source reads answers \<open>Inl message\<close> or \<open>Inr data\<close> (or \<open>Some message\<close>
  when there is no data to read); a request whose error the source ignores answers the
  data, \<open>None\<close> for \<^verbatim>\<open>null\<close>. \<open>now\<close> is \<^verbatim>\<open>new Date().toISOString()\<close>.
\<close>

record remote =
  auth_getUser :: "AuthUser option"
  chats_select :: "string + ChatRow list"
  messages_select :: "string \<Rightarrow> string + Message list"
  messages_insert :: "MessageInsert \<Rightarrow> string option"
  chats_select_direct :: "DirectChatRow list option"
  chats_insert :: "ChatInsert \<Rightarrow> string + ChatColumns"
  participants_insert :: "ParticipantInsert list \<Rightarrow> string option"
  messages_select_single :: "string \<Rightarrow> Message option"
  now :: string

section \<open>The operations (src/stores/chat.ts)\<close>

definition clearError :: "ChatState \<Rightarrow> ChatState" where
  "clearError s = s\<lparr>error := None\<rparr>"

definition setActiveChat :: "Chat option \<Rightarrow> ChatState \<Rightarrow> ChatState" where
  "setActiveChat chat s = s\<lparr>activeChat := chat\<rparr>"

subsection \<open>fetchChats\<close>

text \<open>\<^verbatim>\<open>{ ...chat, participants: chat.chat_participants }\<close>\<close>

definition transformChat :: "ChatRow \<Rightarrow> Chat" where
  "transformChat chat =
     \<lparr>c_id = c_id chat, c_type = c_type chat, c_name = c_name chat,
      c_avatar_url = c_avatar_url chat, c_created_by = c_created_by chat,
      c_created_at = c_created_at chat, c_updated_at = c_updated_at chat,
      c_chat_participants = c_chat_participants chat,
      c_participants = Some (c_chat_participants chat)\<rparr>"

text \<open>
  \<^verbatim>\<open>fetchChats\<close> writes the store twice, with the \<^verbatim>\<open>await\<close> of the select in between:
  \<open>fetchChats_start\<close> is the part that runs synchronously at the call (line 40),
  \<open>fetchChats_finish\<close> the part that runs when the select has resolved (lines 54-65), on
  the state of that moment. \<open>fetchChats\<close> is the run with nothing interleaved.
\<close>

definition fetchChats_start :: "ChatState \<Rightarrow> ChatState" where
  "fetchChats_start s = s\<lparr>loading := True, error := None\<rparr>"

definition fetchChats_finish :: "string + ChatRow list \<Rightarrow> ChatState \<Rightarrow> ChatState" where
  "fetchChats_finish response s =
     (case response of
        Inl message \<Rightarrow> s\<lparr>loading := False, error := Some message\<rparr>
      | Inr rows \<Rightarrow> s\<lparr>chats := map transformChat rows, loading := False\<rparr>)"

definition fetchChats :: "remote \<Rightarrow> ChatState \<Rightarrow> ChatState \<times> call list" where
  "fetchChats r s = (fetchChats_finish (chats_select r) (fetchChats_start s), [SelectChats])"

subsection \<open>fetchMessages\<close>

definition fetchMessages :: "remote \<Rightarrow> string \<Rightarrow> ChatState \<Rightarrow> ChatState \<times> call list" where
  "fetchMessages r chatId s =
     (case messages_select r chatId of
        Inl message \<Rightarrow> (s\<lparr>error := Some message\<rparr>, [SelectMessages chatId])
      | Inr msgs \<Rightarrow> (s\<lparr>messages := (messages s)(chatId \<mapsto> msgs)\<rparr>, [SelectMessages chatId]))"

subsection \<open>sendMessage\<close>

text \<open>The source returns \<^verbatim>\<open>Promise<void>\<close>: what a caller can observe is the store.\<close>

definition sendMessage ::
  "remote \<Rightarrow> string \<Rightarrow> string \<Rightarrow> string option \<Rightarrow> ChatState \<Rightarrow> ChatState \<times> call list" where
  "sendMessage r chatId text replyTo s =
     (case auth_getUser r of
        None \<Rightarrow> (s, [AuthGetUser])
      | Some user \<Rightarrow>
          (let row = \<lparr>mi_chat_id = chatId, mi_sender_id = au_id user, mi_text = text,
                       mi_reply_to = replyTo\<rparr>
           in case messages_insert r row of
                Some message \<Rightarrow> (s\<lparr>error := Some message\<rparr>, [AuthGetUser, InsertMessage row])
              | None \<Rightarrow>
                  (s, [AuthGetUser, InsertMessage row, UpdateChatUpdatedAt chatId (now r)])))"

subsection \<open>createDirectChat and createGroupChat\<close>

text \<open>
  Both return \<^verbatim>\<open>{ chatId }\<close> (\<open>Inr\<close>) or \<^verbatim>\<open>{ error }\<close> (\<open>Inl\<close>) and never write the store.
\<close>

definition isDirectChatOf :: "string \<Rightarrow> string \<Rightarrow> DirectChatRow \<Rightarrow> bool" where
  "isDirectChatOf me userId chat =
     (let participantIds = map pr_user_id (d_chat_participants chat)
      in me \<in> set participantIds \<and> userId \<in> set participantIds
         \<and> length participantIds = 2)"

definition createDirectChat :: "remote \<Rightarrow> string \<Rightarrow> (string + string) \<times> call list" where
  "createDirectChat r userId =
     (case auth_getUser r of
        None \<Rightarrow> (Inl ''Not authenticated'', [AuthGetUser])
      | Some user \<Rightarrow>
          (let directChat =
                 (case chats_select_direct r of
                    None \<Rightarrow> None
                  | Some existingChats \<Rightarrow> find (isDirectChatOf (au_id user) userId) existingChats)
           in case directChat of
                Some chat \<Rightarrow> (Inr (d_id chat), [AuthGetUser, SelectDirectChats])
              | None \<Rightarrow>
                  (let row = \<lparr>ci_type = Direct, ci_name = None, ci_created_by = au_id user\<rparr>
                   in case chats_insert r row of
                        Inl message \<Rightarrow>
                          (Inl message, [AuthGetUser, SelectDirectChats, InsertChat row])
                      | Inr chat \<Rightarrow>
                          (let participants =
                                 [\<lparr>pi_chat_id = c_id chat, pi_user_id = au_id user,
                                   pi_is_admin = None\<rparr>,
                                  \<lparr>pi_chat_id = c_id chat, pi_user_id = userId,
                                   pi_is_admin = None\<rparr>];
                               issued = [AuthGetUser, SelectDirectChats, InsertChat row,
                                         InsertParticipants participants]
                           in case participants_insert r participants of
                                Some message \<Rightarrow> (Inl message, issued)
                              | None \<Rightarrow> (Inr (c_id chat), issued)))))"

definition createGroupChat ::
  "remote \<Rightarrow> string \<Rightarrow> string list \<Rightarrow> (string + string) \<times> call list" where
  "createGroupChat r name userIds =
     (case auth_getUser r of
        None \<Rightarrow> (Inl ''Not authenticated'', [AuthGetUser])
      | Some user \<Rightarrow>
          (let row = \<lparr>ci_type = Group, ci_name = Some name, ci_created_by = au_id user\<rparr>
           in case chats_insert r row of
                Inl message \<Rightarrow> (Inl message, [AuthGetUser, InsertChat row])
              | Inr chat \<Rightarrow>
                  (let participants =
                         \<lparr>pi_chat_id = c_id chat, pi_user_id = au_id user,
                          pi_is_admin = Some True\<rparr>
                         # map (\<lambda>userId. \<lparr>pi_chat_id = c_id chat, pi_user_id = userId,
                                           pi_is_admin = Some False\<rparr>) userIds;
                       issued = [AuthGetUser, InsertChat row, InsertParticipants participants]
                   in case participants_insert r participants of
                        Some message \<Rightarrow> (Inl message, issued)
                      | None \<Rightarrow> (Inr (c_id chat), issued))))"

subsection \<open>subscribeToChat: the handler of an insert event\<close>

text \<open>
  \<^verbatim>\<open>messages\<close> starts as the literal \<^verbatim>\<open>{}\<close> and is rebuilt by object spreads, so it is a
  plain object whose prototype is \<^verbatim>\<open>Object.prototype\<close>: the read \<^verbatim>\<open>state.messages[chatId]\<close>
  of a key that the object does not own finds the member of that name of the prototype,
  where there is one. These are the member names of \<^verbatim>\<open>Object.prototype\<close>; each is a
  function, or for \<^verbatim>\<open>__proto__\<close> the prototype object itself, so the value read is truthy
  and not iterable.
\<close>

definition objectPrototypeMembers :: "string list" where
  "objectPrototypeMembers =
     [''constructor'', ''hasOwnProperty'', ''isPrototypeOf'', ''propertyIsEnumerable'',
      ''toLocaleString'', ''toString'', ''valueOf'', ''__proto__'', ''__defineGetter__'',
      ''__defineSetter__'', ''__lookupGetter__'', ''__lookupSetter__'']"

datatype js_error = TypeError

text \<open>
  \<^verbatim>\<open>[...(state.messages[chatId] || [])]\<close>: the list under an own key (an array is truthy,
  also when empty); for a key not owned that names a member of the prototype, the spread
  of a value that is not iterable throws; for any other key \<^verbatim>\<open>undefined || []\<close>, the empty
  list.
\<close>

definition spreadMessages :: "ChatState \<Rightarrow> string \<Rightarrow> js_error + Message list" where
  "spreadMessages s chatId =
     (case messages s chatId of
        Some msgs \<Rightarrow> Inr msgs
      | None \<Rightarrow> if chatId \<in> set objectPrototypeMembers then Inl TypeError else Inr [])"

text \<open>
  The callback registered by \<^verbatim>\<open>subscribeToChat(chatId)\<close> (lines 215-235), run on an event
  whose \<^verbatim>\<open>payload.new.id\<close> is \<open>newId\<close>. It returns the store, the requests issued and
  what it threw, if anything: an exception in the function given to \<^verbatim>\<open>set\<close> leaves the
  store as it was.
\<close>

definition subscribeToChat ::
  "remote \<Rightarrow> string \<Rightarrow> string \<Rightarrow> ChatState \<Rightarrow> ChatState \<times> call list \<times> js_error option" where
  "subscribeToChat r chatId newId s =
     (case messages_select_single r newId of
        None \<Rightarrow> (s, [SelectMessageById newId], None)
      | Some message \<Rightarrow>
          (case spreadMessages s chatId of
             Inl thrown \<Rightarrow> (s, [SelectMessageById newId], Some thrown)
           | Inr msgs \<Rightarrow>
               (s\<lparr>messages := (messages s)(chatId \<mapsto> msgs @ [message])\<rparr>,
                [SelectMessageById newId], None)))"

subsection \<open>Typing indicators\<close>

definition addTypingUser :: "string \<Rightarrow> string \<Rightarrow> ChatState \<Rightarrow> ChatState" where
  "addTypingUser chatId userId s =
     s\<lparr>typingUsers :=
         filter (\<lambda>t. \<not> (t_chat_id t = chatId \<and> t_user_id t = userId)) (typingUsers s)
         @ [\<lparr>t_user_id = userId, t_chat_id = chatId, t_user = None\<rparr>]\<rparr>"

definition removeTypingUser :: "string \<Rightarrow> string \<Rightarrow> ChatState \<Rightarrow> ChatState" where
  "removeTypingUser chatId userId s =
     s\<lparr>typingUsers :=
         filter (\<lambda>t. \<not> (t_chat_id t = chatId \<and> t_user_id t = userId)) (typingUsers s)\<rparr>"

text \<open>A sequence of calls of the two, run in order from a state.\<close>

datatype typing_call = AddTyping string string | RemoveTyping string string

fun typing_step :: "ChatState \<Rightarrow> typing_call \<Rightarrow> ChatState" where
  "typing_step s (AddTyping chatId userId) = addTypingUser chatId userId s"
| "typing_step s (RemoveTyping chatId userId) = removeTypingUser chatId userId s"

definition typing_run :: "typing_call list \<Rightarrow> ChatState \<Rightarrow> ChatState" where
  "typing_run calls s = foldl typing_step s calls"

text \<open>The (chatId, userId) pairs of the entries, in the order of the list.\<close>

definition typing_pairs :: "ChatState \<Rightarrow> (string \<times> string) list" where
  "typing_pairs s = map (\<lambda>t. (t_chat_id t, t_user_id t)) (typingUsers s)"

text \<open>
  The reading of the specification, to compare with \<open>typing_run\<close>: the typing set is a
  set of (chatId, userId) pairs, add is insert-or-replace, remove is delete-if-present.
\<close>

fun spec_typing_step :: "(string \<times> string) set \<Rightarrow> typing_call \<Rightarrow> (string \<times> string) set" where
  "spec_typing_step S (AddTyping chatId userId) = insert (chatId, userId) (S - {(chatId, userId)})"
| "spec_typing_step S (RemoveTyping chatId userId) = S - {(chatId, userId)}"

definition spec_typing_replay ::
  "typing_call list \<Rightarrow> (string \<times> string) set \<Rightarrow> (string \<times> string) set" where
  "spec_typing_replay calls S = foldl spec_typing_step S calls"

section \<open>Concrete scenarios\<close>

text \<open>
  A remote where nobody is signed in, every select is empty and every write succeeds; the
  scenarios below change one answer at a time.
\<close>

definition example_remote :: remote where
  "example_remote =
     \<lparr>auth_getUser = None,
      chats_select = Inr [],
      messages_select = (\<lambda>chatId. Inr []),
      messages_insert = (\<lambda>row. None),
      chats_select_direct = Some [],
      chats_insert = (\<lambda>row. Inr \<lparr>c_id = ''c9'', c_type = ci_type row, c_name = ci_name row,
                                   c_avatar_url = None, c_created_by = ci_created_by row,
                                   c_created_at = ''t0'', c_updated_at = ''t0''\<rparr>),
      participants_insert = (\<lambda>rows. None),
      messages_select_single = (\<lambda>newId. None),
      now = ''t1''\<rparr>"

definition example_message :: "string \<Rightarrow> string \<Rightarrow> Message" where
  "example_message msgId chatId =
     \<lparr>m_id = msgId, m_chat_id = chatId, m_sender_id = ''u2'', m_text = Some ''hi'',
      m_type = TextMsg, m_reply_to = None, m_edited = False, m_deleted = False,
      m_created_at = ''t0'', m_updated_at = ''t0'', m_sender = None\<rparr>"

definition example_chat :: "string \<Rightarrow> Chat" where
  "example_chat chatId =
     \<lparr>c_id = chatId, c_type = Direct, c_name = None, c_avatar_url = None,
      c_created_by = ''u1'', c_created_at = ''t0'', c_updated_at = ''t0'',
      c_chat_participants = [], c_participants = Some []\<rparr>"

text \<open>The listing of the scenario of the specification: a chat of u1 and u2, one of u1 and u3.\<close>

definition example_direct_chats :: "DirectChatRow list" where
  "example_direct_chats =
     [\<lparr>d_id = ''d12'', d_chat_participants = [\<lparr>pr_user_id = ''u1''\<rparr>, \<lparr>pr_user_id = ''u2''\<rparr>]\<rparr>,
      \<lparr>d_id = ''d13'', d_chat_participants = [\<lparr>pr_user_id = ''u1''\<rparr>, \<lparr>pr_user_id = ''u3''\<rparr>]\<rparr>]"

section \<open>fetchChats\<close>

text \<open>
  C4. When the select of \<^verbatim>\<open>fetchChats\<close> fails with a message, the chat collection after
  the call is the collection before it, and the error field carries that message; the
  completion step leaves the collection of whatever state it runs on untouched as well.
\<close>

theorem fetchChats_failure_keeps_chats:
  assumes "chats_select r = Inl message"
  shows "chats (fst (fetchChats r s)) = chats s
       \<and> error (fst (fetchChats r s)) = Some message
       \<and> loading (fst (fetchChats r s)) = False
       \<and> messages (fst (fetchChats r s)) = messages s
       \<and> typingUsers (fst (fetchChats r s)) = typingUsers s
       \<and> activeChat (fst (fetchChats r s)) = activeChat s
       \<and> chats (fetchChats_finish (Inl message) s') = chats s'
       \<and> error (fetchChats_finish (Inl message) s') = Some message"
  using assms by (simp add: fetchChats_def fetchChats_finish_def fetchChats_start_def)

theorem fetchChats_failure_keeps_chats_witness:
  "chats_select (example_remote\<lparr>chats_select := Inl ''boom''\<rparr>) = Inl ''boom''
   \<and> chats (fst (fetchChats (example_remote\<lparr>chats_select := Inl ''boom''\<rparr>)
                  (initial_state\<lparr>chats := [example_chat ''c1'']\<rparr>))) = [example_chat ''c1'']
   \<and> error (fst (fetchChats (example_remote\<lparr>chats_select := Inl ''boom''\<rparr>)
                  (initial_state\<lparr>chats := [example_chat ''c1'']\<rparr>))) = Some ''boom''"
  using fetchChats_failure_keeps_chats
          [of "example_remote\<lparr>chats_select := Inl ''boom''\<rparr>" "''boom''"
              "initial_state\<lparr>chats := [example_chat ''c1'']\<rparr>" initial_state]
  by (simp add: initial_state_def)

text \<open>
  C10. The synchronous first step of \<^verbatim>\<open>fetchChats\<close> sets \<^verbatim>\<open>loading\<close> and clears the shared
  error field, whatever message was there, and touches nothing else; this is the state
  while the select is pending. Whatever the select then answers, the error field after the
  call is decided by that answer alone: the earlier message never survives.
\<close>

theorem fetchChats_start_clears_error:
  "loading (fetchChats_start s) = True
   \<and> error (fetchChats_start s) = None
   \<and> fetchChats_start s = s\<lparr>loading := True, error := None\<rparr>
   \<and> fetchChats_start (s\<lparr>error := previous\<rparr>) = fetchChats_start s
   \<and> fst (fetchChats r s) = fetchChats_finish (chats_select r) (fetchChats_start s)
   \<and> error (fst (fetchChats r (s\<lparr>error := previous\<rparr>)))
       = (case chats_select r of Inl message \<Rightarrow> Some message | Inr rows \<Rightarrow> None)"
  by (simp add: fetchChats_def fetchChats_finish_def fetchChats_start_def split: sum.split)

section \<open>fetchMessages\<close>

text \<open>
  C6. When the select of \<^verbatim>\<open>fetchMessages(chatId)\<close> succeeds, the list under \<open>chatId\<close> is
  the fetched list, whatever was there, and the list under every other key is unchanged.
\<close>

theorem fetchMessages_success_replaces_only_chat:
  assumes "messages_select r chatId = Inr fetched"
  shows "messages (fst (fetchMessages r chatId s)) chatId = Some fetched
       \<and> (\<forall>k. k \<noteq> chatId \<longrightarrow> messages (fst (fetchMessages r chatId s)) k = messages s k)"
  using assms by (simp add: fetchMessages_def)

theorem fetchMessages_success_replaces_only_chat_witness:
  "messages_select (example_remote\<lparr>messages_select := (\<lambda>c. Inr [example_message ''m2'' c])\<rparr>) ''c1''
     = Inr [example_message ''m2'' ''c1'']
   \<and> messages (fst (fetchMessages
        (example_remote\<lparr>messages_select := (\<lambda>c. Inr [example_message ''m2'' c])\<rparr>) ''c1''
        (initial_state\<lparr>messages := [''c1'' \<mapsto> [example_message ''m1'' ''c1''],
                                     ''c2'' \<mapsto> [example_message ''m7'' ''c2'']]\<rparr>))) ''c1''
     = Some [example_message ''m2'' ''c1'']
   \<and> messages (fst (fetchMessages
        (example_remote\<lparr>messages_select := (\<lambda>c. Inr [example_message ''m2'' c])\<rparr>) ''c1''
        (initial_state\<lparr>messages := [''c1'' \<mapsto> [example_message ''m1'' ''c1''],
                                     ''c2'' \<mapsto> [example_message ''m7'' ''c2'']]\<rparr>))) ''c2''
     = Some [example_message ''m7'' ''c2'']"
  using fetchMessages_success_replaces_only_chat
          [of "example_remote\<lparr>messages_select := (\<lambda>c. Inr [example_message ''m2'' c])\<rparr>"
              "''c1''" "[example_message ''m2'' ''c1'']"
              "initial_state\<lparr>messages := [''c1'' \<mapsto> [example_message ''m1'' ''c1''],
                                          ''c2'' \<mapsto> [example_message ''m7'' ''c2'']]\<rparr>"]
  by simp

text \<open>
  C5, as the code has it. When the select of \<^verbatim>\<open>fetchMessages(chatId)\<close> fails, the only
  change to the store is that the one error field of the store holds the message: the
  result does not depend on \<open>chatId\<close>, \<^verbatim>\<open>clearError\<close> clears it, and a later failure of a
  load of any other chat overwrites it.
\<close>

theorem fetchMessages_failure_sets_shared_error:
  assumes "messages_select r chatId = Inl message"
  shows "fst (fetchMessages r chatId s) = s\<lparr>error := Some message\<rparr>
       \<and> messages (fst (fetchMessages r chatId s)) = messages s
       \<and> error (clearError (fst (fetchMessages r chatId s))) = None
       \<and> (messages_select r' other = Inl message'
            \<longrightarrow> fst (fetchMessages r' other (fst (fetchMessages r chatId s)))
                = s\<lparr>error := Some message'\<rparr>)"
  using assms by (simp add: fetchMessages_def clearError_def)

theorem fetchMessages_failure_sets_shared_error_witness:
  "messages_select (example_remote\<lparr>messages_select := (\<lambda>c. Inl ''boom'')\<rparr>) ''c1'' = Inl ''boom''
   \<and> fst (fetchMessages (example_remote\<lparr>messages_select := (\<lambda>c. Inl ''boom'')\<rparr>) ''c1''
            initial_state)
     = initial_state\<lparr>error := Some ''boom''\<rparr>
   \<and> messages_select (example_remote\<lparr>messages_select := (\<lambda>c. Inl ''late'')\<rparr>) ''c2'' = Inl ''late''
   \<and> fst (fetchMessages (example_remote\<lparr>messages_select := (\<lambda>c. Inl ''late'')\<rparr>) ''c2''
        (fst (fetchMessages (example_remote\<lparr>messages_select := (\<lambda>c. Inl ''boom'')\<rparr>) ''c1''
                initial_state)))
     = initial_state\<lparr>error := Some ''late''\<rparr>"
  using fetchMessages_failure_sets_shared_error
          [of "example_remote\<lparr>messages_select := (\<lambda>c. Inl ''boom'')\<rparr>" "''c1''" "''boom''"
              initial_state
              "example_remote\<lparr>messages_select := (\<lambda>c. Inl ''late'')\<rparr>" "''c2''" "''late''"]
  by (simp add: fetchMessages_def)

text \<open>
  C5, as the specification states it, fails: the store after a failed load of chat c1 is
  the store after a failed load of chat c2 with the same message, so nothing in it is
  scoped to the chat; and after a failed load of c1 and then of c2 the store is what the
  failed load of c2 alone leaves, the failure of c1 is gone.
\<close>

theorem fetchMessages_error_not_per_chat:
  "fst (fetchMessages (example_remote\<lparr>messages_select := (\<lambda>c. Inl ''boom'')\<rparr>) ''c1''
          initial_state)
   = fst (fetchMessages (example_remote\<lparr>messages_select := (\<lambda>c. Inl ''boom'')\<rparr>) ''c2''
          initial_state)
   \<and> fst (fetchMessages (example_remote\<lparr>messages_select := (\<lambda>c. Inl ''late'')\<rparr>) ''c2''
        (fst (fetchMessages (example_remote\<lparr>messages_select := (\<lambda>c. Inl ''boom'')\<rparr>) ''c1''
                initial_state)))
     = fst (fetchMessages (example_remote\<lparr>messages_select := (\<lambda>c. Inl ''late'')\<rparr>) ''c2''
             initial_state)"
  by (simp add: fetchMessages_def)

section \<open>sendMessage\<close>

text \<open>
  C2, as the code has it. With no authenticated user \<^verbatim>\<open>sendMessage\<close> returns at once: the
  store is unchanged, so no error is reported, and the identity lookup is the only request
  issued; there is no message insert and no timestamp update.
\<close>

theorem sendMessage_unauthenticated_silent:
  assumes "auth_getUser r = None"
  shows "sendMessage r chatId text replyTo s = (s, [AuthGetUser])"
  using assms by (simp add: sendMessage_def)

theorem sendMessage_unauthenticated_silent_witness:
  "auth_getUser example_remote = None
   \<and> sendMessage example_remote ''c1'' ''hello'' None (initial_state\<lparr>error := Some ''old''\<rparr>)
     = (initial_state\<lparr>error := Some ''old''\<rparr>, [AuthGetUser])"
  using sendMessage_unauthenticated_silent
          [of example_remote "''c1''" "''hello''" None "initial_state\<lparr>error := Some ''old''\<rparr>"]
  by (simp add: example_remote_def)

text \<open>
  C2, as the specification states it, fails in the scenario of the specification:
  \<^verbatim>\<open>sendMessage("c1", "hello", undefined)\<close> with nobody signed in leaves the error field of
  the fresh store empty; the call reports no failure.
\<close>

theorem sendMessage_unauthenticated_no_error:
  "auth_getUser example_remote = None
   \<and> error (fst (sendMessage example_remote ''c1'' ''hello'' None initial_state)) = None
   \<and> fst (sendMessage example_remote ''c1'' ''hello'' None initial_state) = initial_state"
  by (simp add: sendMessage_def example_remote_def initial_state_def)

text \<open>
  C9. When the insert of \<^verbatim>\<open>sendMessage\<close> fails with a message, the store's error field is
  set to it and the requests issued are the identity lookup and the insert, no timestamp
  update. In every run, a timestamp update among the requests means that a user was signed
  in and the insert succeeded, and the requests are then lookup, insert, update, in this
  order.
\<close>

theorem sendMessage_insert_failure_skips_update:
  assumes "auth_getUser r = Some user"
    and "messages_insert r \<lparr>mi_chat_id = chatId, mi_sender_id = au_id user, mi_text = text,
                            mi_reply_to = replyTo\<rparr> = Some message"
  shows "sendMessage r chatId text replyTo s
         = (s\<lparr>error := Some message\<rparr>,
            [AuthGetUser,
             InsertMessage \<lparr>mi_chat_id = chatId, mi_sender_id = au_id user, mi_text = text,
                            mi_reply_to = replyTo\<rparr>])
       \<and> (\<forall>c t. UpdateChatUpdatedAt c t \<notin> set (snd (sendMessage r chatId text replyTo s)))
       \<and> (\<forall>r' c t. UpdateChatUpdatedAt c t \<in> set (snd (sendMessage r' chatId text replyTo s))
             \<longrightarrow> (\<exists>u. auth_getUser r' = Some u
                      \<and> messages_insert r' \<lparr>mi_chat_id = chatId, mi_sender_id = au_id u,
                                             mi_text = text, mi_reply_to = replyTo\<rparr> = None
                      \<and> snd (sendMessage r' chatId text replyTo s)
                          = [AuthGetUser,
                             InsertMessage \<lparr>mi_chat_id = chatId, mi_sender_id = au_id u,
                                            mi_text = text, mi_reply_to = replyTo\<rparr>,
                             UpdateChatUpdatedAt chatId (now r')]))"
proof -
  have failed: "sendMessage r chatId text replyTo s
         = (s\<lparr>error := Some message\<rparr>,
            [AuthGetUser,
             InsertMessage \<lparr>mi_chat_id = chatId, mi_sender_id = au_id user, mi_text = text,
                            mi_reply_to = replyTo\<rparr>])"
    using assms by (simp add: sendMessage_def)
  have only_after: "\<exists>u. auth_getUser r' = Some u
                      \<and> messages_insert r' \<lparr>mi_chat_id = chatId, mi_sender_id = au_id u,
                                             mi_text = text, mi_reply_to = replyTo\<rparr> = None
                      \<and> snd (sendMessage r' chatId text replyTo s)
                          = [AuthGetUser,
                             InsertMessage \<lparr>mi_chat_id = chatId, mi_sender_id = au_id u,
                                            mi_text = text, mi_reply_to = replyTo\<rparr>,
                             UpdateChatUpdatedAt chatId (now r')]"
    if "UpdateChatUpdatedAt c t \<in> set (snd (sendMessage r' chatId text replyTo s))"
    for r' c t
    using that by (auto simp: sendMessage_def Let_def split: option.splits)
  show ?thesis
    using failed only_after by simp
qed

theorem sendMessage_insert_failure_skips_update_witness:
  "auth_getUser (example_remote\<lparr>auth_getUser := Some \<lparr>au_id = ''u1''\<rparr>,
                                 messages_insert := (\<lambda>row. Some ''denied'')\<rparr>)
     = Some \<lparr>au_id = ''u1''\<rparr>
   \<and> sendMessage (example_remote\<lparr>auth_getUser := Some \<lparr>au_id = ''u1''\<rparr>,
                                 messages_insert := (\<lambda>row. Some ''denied'')\<rparr>)
        ''c1'' ''hello'' None initial_state
     = (initial_state\<lparr>error := Some ''denied''\<rparr>,
        [AuthGetUser,
         InsertMessage \<lparr>mi_chat_id = ''c1'', mi_sender_id = ''u1'', mi_text = ''hello'',
                        mi_reply_to = None\<rparr>])
   \<and> snd (sendMessage (example_remote\<lparr>auth_getUser := Some \<lparr>au_id = ''u1''\<rparr>\<rparr>)
        ''c1'' ''hello'' None initial_state)
     = [AuthGetUser,
        InsertMessage \<lparr>mi_chat_id = ''c1'', mi_sender_id = ''u1'', mi_text = ''hello'',
                       mi_reply_to = None\<rparr>,
        UpdateChatUpdatedAt ''c1'' ''t1'']"
proof -
  let ?denying = "example_remote\<lparr>auth_getUser := Some \<lparr>au_id = ''u1''\<rparr>,
                                 messages_insert := (\<lambda>row. Some ''denied'')\<rparr>"
  let ?accepting = "example_remote\<lparr>auth_getUser := Some \<lparr>au_id = ''u1''\<rparr>\<rparr>"
  have signed_in: "auth_getUser ?denying = Some \<lparr>au_id = ''u1''\<rparr>"
    by simp
  have denied: "messages_insert ?denying
                  \<lparr>mi_chat_id = ''c1'', mi_sender_id = au_id \<lparr>au_id = ''u1''\<rparr>,
                   mi_text = ''hello'', mi_reply_to = None\<rparr> = Some ''denied''"
    by simp
  note claim = sendMessage_insert_failure_skips_update
                 [of ?denying "\<lparr>au_id = ''u1''\<rparr>" "''c1''" "''hello''" None "''denied''"
                     initial_state, OF signed_in denied]
  have updated: "UpdateChatUpdatedAt ''c1'' ''t1''
                   \<in> set (snd (sendMessage ?accepting ''c1'' ''hello'' None initial_state))"
    by (simp add: sendMessage_def example_remote_def)
  from claim updated
  obtain u where u: "auth_getUser ?accepting = Some u"
    and issued: "snd (sendMessage ?accepting ''c1'' ''hello'' None initial_state)
                 = [AuthGetUser,
                    InsertMessage \<lparr>mi_chat_id = ''c1'', mi_sender_id = au_id u,
                                   mi_text = ''hello'', mi_reply_to = None\<rparr>,
                    UpdateChatUpdatedAt ''c1'' (now ?accepting)]"
    by blast
  from u have "u = \<lparr>au_id = ''u1''\<rparr>"
    by simp
  with issued have "snd (sendMessage ?accepting ''c1'' ''hello'' None initial_state)
                 = [AuthGetUser,
                    InsertMessage \<lparr>mi_chat_id = ''c1'', mi_sender_id = ''u1'',
                                   mi_text = ''hello'', mi_reply_to = None\<rparr>,
                    UpdateChatUpdatedAt ''c1'' ''t1'']"
    by (simp add: example_remote_def)
  moreover from claim have "sendMessage ?denying ''c1'' ''hello'' None initial_state
     = (initial_state\<lparr>error := Some ''denied''\<rparr>,
        [AuthGetUser,
         InsertMessage \<lparr>mi_chat_id = ''c1'', mi_sender_id = ''u1'', mi_text = ''hello'',
                        mi_reply_to = None\<rparr>])"
    by simp
  ultimately show ?thesis
    using signed_in by simp
qed

section \<open>subscribeToChat\<close>

lemma subscribeToChat_inherited_member_throws:
  assumes "messages_select_single r newId = Some message"
    and "messages s chatId = None" and "chatId \<in> set objectPrototypeMembers"
  shows "subscribeToChat r chatId newId s = (s, [SelectMessageById newId], Some TypeError)"
  using assms by (simp add: subscribeToChat_def spreadMessages_def)

text \<open>
  C1, as the code has it. Let \<open>chatId\<close> be a key of the message map, or a string that
  is not the name of a member of \<^verbatim>\<open>Object.prototype\<close>. When the re-fetch of the handler
  returns a row, the row is appended at the end of the list under \<open>chatId\<close> (the empty
  list when the key is absent), whether or not a message with its id is already there: the
  list grows by one and an id that was present is then present twice. The lists of the
  other chats are unchanged and nothing is thrown. When the re-fetch returns no row the
  store is unchanged.
\<close>

theorem subscribeToChat_appends_unconditionally:
  assumes "messages_select_single r newId = Some message"
    and "messages s chatId \<noteq> None \<or> chatId \<notin> set objectPrototypeMembers"
  shows "messages (fst (subscribeToChat r chatId newId s)) chatId
         = Some ((case messages s chatId of None \<Rightarrow> [] | Some msgs \<Rightarrow> msgs) @ [message])
       \<and> (\<forall>k. k \<noteq> chatId \<longrightarrow> messages (fst (subscribeToChat r chatId newId s)) k = messages s k)
       \<and> (\<forall>msgs. messages s chatId = Some msgs \<and> m_id message \<in> set (map m_id msgs)
             \<longrightarrow> \<not> distinct (map m_id (the (messages (fst (subscribeToChat r chatId newId s)) chatId))))
       \<and> snd (subscribeToChat r chatId newId s) = ([SelectMessageById newId], None)
       \<and> (messages_select_single r' newId = None
             \<longrightarrow> subscribeToChat r' chatId newId s = (s, [SelectMessageById newId], None))"
proof -
  from assms(2) have spread: "spreadMessages s chatId
                      = Inr (case messages s chatId of None \<Rightarrow> [] | Some msgs \<Rightarrow> msgs)"
    by (auto simp: spreadMessages_def split: option.splits)
  have run: "subscribeToChat r chatId newId s
             = (s\<lparr>messages := (messages s)(chatId \<mapsto>
                    (case messages s chatId of None \<Rightarrow> [] | Some msgs \<Rightarrow> msgs) @ [message])\<rparr>,
                [SelectMessageById newId], None)"
    using assms(1) spread by (simp add: subscribeToChat_def)
  have no_row: "messages_select_single r' newId = None
                \<longrightarrow> subscribeToChat r' chatId newId s = (s, [SelectMessageById newId], None)"
    by (simp add: subscribeToChat_def)
  show ?thesis
    using no_row unfolding run by auto
qed

theorem subscribeToChat_appends_unconditionally_witness:
  "messages_select_single
     (example_remote\<lparr>messages_select_single := (\<lambda>i. Some (example_message i ''c1''))\<rparr>) ''m2''
     = Some (example_message ''m2'' ''c1'')
   \<and> messages (initial_state\<lparr>messages := [''c1'' \<mapsto> [example_message ''m1'' ''c1''],
                                       ''c2'' \<mapsto> [example_message ''m7'' ''c2'']]\<rparr>) ''c1''
     \<noteq> None
   \<and> messages (fst (subscribeToChat
        (example_remote\<lparr>messages_select_single := (\<lambda>i. Some (example_message i ''c1''))\<rparr>)
        ''c1'' ''m2''
        (initial_state\<lparr>messages := [''c1'' \<mapsto> [example_message ''m1'' ''c1''],
                                     ''c2'' \<mapsto> [example_message ''m7'' ''c2'']]\<rparr>))) ''c1''
     = Some [example_message ''m1'' ''c1'', example_message ''m2'' ''c1'']
   \<and> messages (fst (subscribeToChat
        (example_remote\<lparr>messages_select_single := (\<lambda>i. Some (example_message i ''c1''))\<rparr>)
        ''c1'' ''m2''
        (initial_state\<lparr>messages := [''c1'' \<mapsto> [example_message ''m1'' ''c1''],
                                     ''c2'' \<mapsto> [example_message ''m7'' ''c2'']]\<rparr>))) ''c2''
     = Some [example_message ''m7'' ''c2'']
   \<and> ''c3'' \<notin> set objectPrototypeMembers
   \<and> messages (fst (subscribeToChat
        (example_remote\<lparr>messages_select_single := (\<lambda>i. Some (example_message i ''c1''))\<rparr>)
        ''c3'' ''m2'' initial_state)) ''c3''
     = Some [example_message ''m2'' ''c1'']"
proof -
  let ?r = "example_remote\<lparr>messages_select_single := (\<lambda>i. Some (example_message i ''c1''))\<rparr>"
  let ?s = "initial_state\<lparr>messages := [''c1'' \<mapsto> [example_message ''m1'' ''c1''],
                                       ''c2'' \<mapsto> [example_message ''m7'' ''c2'']]\<rparr>"
  have row: "messages_select_single ?r ''m2'' = Some (example_message ''m2'' ''c1'')"
    by simp
  have own: "messages ?s ''c1'' \<noteq> None"
    by simp
  have plain: "''c3'' \<notin> set objectPrototypeMembers"
    by (simp add: objectPrototypeMembers_def)
  have absent: "messages initial_state ''c3'' = None"
    by (simp add: initial_state_def)
  note owned = subscribeToChat_appends_unconditionally
                 [of ?r "''m2''" "example_message ''m2'' ''c1''" ?s "''c1''", OF row disjI1 [OF own]]
  note fresh = subscribeToChat_appends_unconditionally
                 [of ?r "''m2''" "example_message ''m2'' ''c1''" initial_state "''c3''",
                  OF row disjI2 [OF plain]]
  from owned have first: "messages (fst (subscribeToChat ?r ''c1'' ''m2'' ?s)) ''c1''
                          = Some [example_message ''m1'' ''c1'', example_message ''m2'' ''c1'']"
    by simp
  from owned have "\<forall>k. k \<noteq> ''c1'' \<longrightarrow> messages (fst (subscribeToChat ?r ''c1'' ''m2'' ?s)) k
                                         = messages ?s k"
    by blast
  then have second: "messages (fst (subscribeToChat ?r ''c1'' ''m2'' ?s)) ''c2''
                     = Some [example_message ''m7'' ''c2'']"
    by simp
  from fresh absent have third: "messages (fst (subscribeToChat ?r ''c3'' ''m2'' initial_state)) ''c3''
                                 = Some [example_message ''m2'' ''c1'']"
    by simp
  from row own first second plain third show ?thesis
    by simp
qed

text \<open>
  C1, as the specification states it, fails: the list of chat c1 holds the message m1
  (say, from \<^verbatim>\<open>fetchMessages\<close>), the insert event for m1 arrives, and the handler leaves
  m1 in the list twice.
\<close>

theorem subscribeToChat_duplicates_message:
  "distinct (map m_id [example_message ''m1'' ''c1''])
   \<and> messages (fst (subscribeToChat
        (example_remote\<lparr>messages_select_single := (\<lambda>i. Some (example_message i ''c1''))\<rparr>)
        ''c1'' ''m1''
        (initial_state\<lparr>messages := [''c1'' \<mapsto> [example_message ''m1'' ''c1'']]\<rparr>))) ''c1''
     = Some [example_message ''m1'' ''c1'', example_message ''m1'' ''c1'']
   \<and> \<not> distinct (map m_id [example_message ''m1'' ''c1'', example_message ''m1'' ''c1''])"
  by (simp add: subscribeToChat_def spreadMessages_def)

section \<open>createGroupChat\<close>

text \<open>
  C7. When user u1 is signed in and \<^verbatim>\<open>createGroupChat(name, userIds)\<close> returns a chat id,
  the requests it issued are, in this order: the identity lookup, one chat insert with
  type group, the name and created_by = u1, and one participant insert whose rows are
  (u1, is_admin = true) followed by (u, is_admin = false) for each u of \<open>userIds\<close>, all
  with the id of the created chat, which is the id returned. The remote accepted both
  inserts: the chat insert answered the created chat and the participant insert answered
  without error, so the chat and these participants were created.
\<close>

theorem createGroupChat_success_requests:
  assumes "auth_getUser r = Some user"
    and "fst (createGroupChat r name userIds) = Inr chatId"
  shows "snd (createGroupChat r name userIds)
         = [AuthGetUser,
            InsertChat \<lparr>ci_type = Group, ci_name = Some name, ci_created_by = au_id user\<rparr>,
            InsertParticipants
              (\<lparr>pi_chat_id = chatId, pi_user_id = au_id user, pi_is_admin = Some True\<rparr>
               # map (\<lambda>userId. \<lparr>pi_chat_id = chatId, pi_user_id = userId,
                                 pi_is_admin = Some False\<rparr>) userIds)]
       \<and> (\<exists>chat. chats_insert r \<lparr>ci_type = Group, ci_name = Some name,
                                  ci_created_by = au_id user\<rparr> = Inr chat
                  \<and> c_id chat = chatId)
       \<and> participants_insert r
            (\<lparr>pi_chat_id = chatId, pi_user_id = au_id user, pi_is_admin = Some True\<rparr>
             # map (\<lambda>userId. \<lparr>pi_chat_id = chatId, pi_user_id = userId,
                               pi_is_admin = Some False\<rparr>) userIds) = None"
  using assms
  by (auto simp: createGroupChat_def Let_def split: sum.splits option.splits)

theorem createGroupChat_success_requests_witness:
  "auth_getUser (example_remote\<lparr>auth_getUser := Some \<lparr>au_id = ''u1''\<rparr>\<rparr>) = Some \<lparr>au_id = ''u1''\<rparr>
   \<and> createGroupChat (example_remote\<lparr>auth_getUser := Some \<lparr>au_id = ''u1''\<rparr>\<rparr>)
        ''Team'' [''u2'', ''u3'']
     = (Inr ''c9'',
        [AuthGetUser,
         InsertChat \<lparr>ci_type = Group, ci_name = Some ''Team'', ci_created_by = ''u1''\<rparr>,
         InsertParticipants
           [\<lparr>pi_chat_id = ''c9'', pi_user_id = ''u1'', pi_is_admin = Some True\<rparr>,
            \<lparr>pi_chat_id = ''c9'', pi_user_id = ''u2'', pi_is_admin = Some False\<rparr>,
            \<lparr>pi_chat_id = ''c9'', pi_user_id = ''u3'', pi_is_admin = Some False\<rparr>]])
   \<and> participants_insert (example_remote\<lparr>auth_getUser := Some \<lparr>au_id = ''u1''\<rparr>\<rparr>)
        [\<lparr>pi_chat_id = ''c9'', pi_user_id = ''u1'', pi_is_admin = Some True\<rparr>,
         \<lparr>pi_chat_id = ''c9'', pi_user_id = ''u2'', pi_is_admin = Some False\<rparr>,
         \<lparr>pi_chat_id = ''c9'', pi_user_id = ''u3'', pi_is_admin = Some False\<rparr>] = None"
proof -
  let ?r = "example_remote\<lparr>auth_getUser := Some \<lparr>au_id = ''u1''\<rparr>\<rparr>"
  have signed_in: "auth_getUser ?r = Some \<lparr>au_id = ''u1''\<rparr>"
    by simp
  have created: "fst (createGroupChat ?r ''Team'' [''u2'', ''u3'']) = Inr ''c9''"
    by (simp add: createGroupChat_def example_remote_def)
  note claim = createGroupChat_success_requests [OF signed_in created]
  from claim
  have issued: "snd (createGroupChat ?r ''Team'' [''u2'', ''u3''])
        = [AuthGetUser,
           InsertChat \<lparr>ci_type = Group, ci_name = Some ''Team'', ci_created_by = ''u1''\<rparr>,
           InsertParticipants
             [\<lparr>pi_chat_id = ''c9'', pi_user_id = ''u1'', pi_is_admin = Some True\<rparr>,
              \<lparr>pi_chat_id = ''c9'', pi_user_id = ''u2'', pi_is_admin = Some False\<rparr>,
              \<lparr>pi_chat_id = ''c9'', pi_user_id = ''u3'', pi_is_admin = Some False\<rparr>]]"
    by simp
  from claim
  have accepted: "participants_insert ?r
        [\<lparr>pi_chat_id = ''c9'', pi_user_id = ''u1'', pi_is_admin = Some True\<rparr>,
         \<lparr>pi_chat_id = ''c9'', pi_user_id = ''u2'', pi_is_admin = Some False\<rparr>,
         \<lparr>pi_chat_id = ''c9'', pi_user_id = ''u3'', pi_is_admin = Some False\<rparr>] = None"
    by simp
  from created signed_in issued have "createGroupChat ?r ''Team'' [''u2'', ''u3'']
     = (Inr ''c9'',
        [AuthGetUser,
         InsertChat \<lparr>ci_type = Group, ci_name = Some ''Team'', ci_created_by = ''u1''\<rparr>,
         InsertParticipants
           [\<lparr>pi_chat_id = ''c9'', pi_user_id = ''u1'', pi_is_admin = Some True\<rparr>,
            \<lparr>pi_chat_id = ''c9'', pi_user_id = ''u2'', pi_is_admin = Some False\<rparr>,
            \<lparr>pi_chat_id = ''c9'', pi_user_id = ''u3'', pi_is_admin = Some False\<rparr>]])"
    by (simp add: prod_eq_iff)
  with signed_in accepted show ?thesis
    by simp
qed

section \<open>createDirectChat\<close>

lemma isDirectChatOf_commute: "isDirectChatOf a b chat = isDirectChatOf b a chat"
  by (auto simp: isDirectChatOf_def Let_def)

lemma isDirectChatOf_pair:
  assumes "set (map pr_user_id (d_chat_participants chat)) = {a, b}"
    and "distinct (map pr_user_id (d_chat_participants chat))"
    and "a \<noteq> b"
  shows "isDirectChatOf a b chat"
proof -
  have "length (map pr_user_id (d_chat_participants chat))
        = card (set (map pr_user_id (d_chat_participants chat)))"
    using assms(2) by (rule distinct_card [symmetric])
  also have "\<dots> = 2"
    using assms(1,3) by simp
  finally show ?thesis
    using assms(1) by (simp add: isDirectChatOf_def Let_def)
qed

lemma isDirectChatOf_set:
  assumes "isDirectChatOf a b chat" and "a \<noteq> b"
  shows "set (map pr_user_id (d_chat_participants chat)) = {a, b}
       \<and> distinct (map pr_user_id (d_chat_participants chat))"
proof -
  from assms(1) obtain x y where xy: "map pr_user_id (d_chat_participants chat) = [x, y]"
    by (auto simp: isDirectChatOf_def Let_def length_Suc_conv numeral_2_eq_2)
  with assms show ?thesis
    by (auto simp: isDirectChatOf_def Let_def)
qed

lemma createDirectChat_found:
  assumes "auth_getUser r = Some caller"
    and "chats_select_direct r = Some existingChats"
    and "find (isDirectChatOf (au_id caller) userId) existingChats = Some found"
  shows "createDirectChat r userId = (Inr (d_id found), [AuthGetUser, SelectDirectChats])"
  using assms by (simp add: createDirectChat_def)

text \<open>
  C3. The caller A is signed in, B is another user, and the listing of direct chats holds
  a chat whose participant rows are exactly A and B (one row each). Then
  \<^verbatim>\<open>createDirectChat(B)\<close> by A returns the id of such a chat of the listing (the first
  one) and issues the identity lookup and the listing only, no chat insert and no
  participant insert; \<^verbatim>\<open>createDirectChat(A)\<close> by B on the same listing returns the same id
  with the same requests. Since nothing is written, a second call sees the same listing
  and returns the same id. Where the listing holds one chat id for the pair, as the data
  model demands, the id returned is the id of that chat.
\<close>

theorem createDirectChat_existing_idempotent:
  assumes "a \<noteq> b"
    and "auth_getUser r = Some caller" and "au_id caller = a"
    and "chats_select_direct r = Some existingChats"
    and "chat \<in> set existingChats"
    and "set (map pr_user_id (d_chat_participants chat)) = {a, b}"
    and "distinct (map pr_user_id (d_chat_participants chat))"
  shows "\<exists>found. found \<in> set existingChats
           \<and> set (map pr_user_id (d_chat_participants found)) = {a, b}
           \<and> distinct (map pr_user_id (d_chat_participants found))
           \<and> createDirectChat r b = (Inr (d_id found), [AuthGetUser, SelectDirectChats])
           \<and> createDirectChat (r\<lparr>auth_getUser := Some (caller\<lparr>au_id := b\<rparr>)\<rparr>) a
               = (Inr (d_id found), [AuthGetUser, SelectDirectChats])
           \<and> ((\<forall>other. other \<in> set existingChats
                   \<and> set (map pr_user_id (d_chat_participants other)) = {a, b}
                   \<and> distinct (map pr_user_id (d_chat_participants other))
                   \<longrightarrow> d_id other = d_id chat)
                \<longrightarrow> d_id found = d_id chat)"
proof -
  have "isDirectChatOf a b chat"
    using assms(6,7,1) by (rule isDirectChatOf_pair)
  with assms(5) have "find (isDirectChatOf a b) existingChats \<noteq> None"
    by (auto simp: find_None_iff)
  then obtain found where found: "find (isDirectChatOf a b) existingChats = Some found"
    by auto
  then have in_listing: "found \<in> set existingChats" and qualifies: "isDirectChatOf a b found"
    by (auto simp: find_Some_iff)
  have reversed: "find (isDirectChatOf b a) existingChats = Some found"
    using found isDirectChatOf_commute [of b a] by (simp add: fun_eq_iff cong: find_cong)
  have pair: "set (map pr_user_id (d_chat_participants found)) = {a, b}
            \<and> distinct (map pr_user_id (d_chat_participants found))"
    using qualifies assms(1) by (rule isDirectChatOf_set)
  have first_call: "createDirectChat r b = (Inr (d_id found), [AuthGetUser, SelectDirectChats])"
    using assms(2,4) found assms(3) by (simp add: createDirectChat_found)
  have second_call: "createDirectChat (r\<lparr>auth_getUser := Some (caller\<lparr>au_id := b\<rparr>)\<rparr>) a
                     = (Inr (d_id found), [AuthGetUser, SelectDirectChats])"
    using assms(4) reversed
    by (simp add: createDirectChat_found [where caller = "caller\<lparr>au_id := b\<rparr>"])
  show ?thesis
    using in_listing pair first_call second_call by blast
qed

theorem createDirectChat_existing_idempotent_witness:
  "''u1'' \<noteq> ''u2''
   \<and> createDirectChat (example_remote\<lparr>auth_getUser := Some \<lparr>au_id = ''u1''\<rparr>,
                                      chats_select_direct := Some example_direct_chats\<rparr>) ''u2''
     = (Inr ''d12'', [AuthGetUser, SelectDirectChats])
   \<and> createDirectChat (example_remote\<lparr>auth_getUser := Some \<lparr>au_id = ''u2''\<rparr>,
                                      chats_select_direct := Some example_direct_chats\<rparr>) ''u1''
     = (Inr ''d12'', [AuthGetUser, SelectDirectChats])"
proof -
  let ?r = "example_remote\<lparr>auth_getUser := Some \<lparr>au_id = ''u1''\<rparr>,
                           chats_select_direct := Some example_direct_chats\<rparr>"
  let ?chat = "\<lparr>d_id = ''d12'',
                d_chat_participants = [\<lparr>pr_user_id = ''u1''\<rparr>, \<lparr>pr_user_id = ''u2''\<rparr>]\<rparr>"
  have distinct_users: "''u1'' \<noteq> ''u2''"
    by simp
  have signed_in: "auth_getUser ?r = Some \<lparr>au_id = ''u1''\<rparr>"
    by simp
  have caller: "au_id \<lparr>au_id = ''u1''\<rparr> = ''u1''"
    by simp
  have listing: "chats_select_direct ?r = Some example_direct_chats"
    by simp
  have listed: "?chat \<in> set example_direct_chats"
    by (simp add: example_direct_chats_def)
  have pair: "set (map pr_user_id (d_chat_participants ?chat)) = {''u1'', ''u2''}"
    by simp
  have rows: "distinct (map pr_user_id (d_chat_participants ?chat))"
    by simp
  have only_one: "\<forall>other. other \<in> set example_direct_chats
                   \<and> set (map pr_user_id (d_chat_participants other)) = {''u1'', ''u2''}
                   \<and> distinct (map pr_user_id (d_chat_participants other))
                   \<longrightarrow> d_id other = d_id ?chat"
  proof (intro allI impI)
    fix other
    assume other: "other \<in> set example_direct_chats
                   \<and> set (map pr_user_id (d_chat_participants other)) = {''u1'', ''u2''}
                   \<and> distinct (map pr_user_id (d_chat_participants other))"
    then have "other = ?chat
               \<or> other = \<lparr>d_id = ''d13'',
                           d_chat_participants = [\<lparr>pr_user_id = ''u1''\<rparr>, \<lparr>pr_user_id = ''u3''\<rparr>]\<rparr>"
      by (simp add: example_direct_chats_def)
    then show "d_id other = d_id ?chat"
    proof
      assume "other = ?chat"
      then show ?thesis by simp
    next
      assume "other = \<lparr>d_id = ''d13'',
                         d_chat_participants = [\<lparr>pr_user_id = ''u1''\<rparr>, \<lparr>pr_user_id = ''u3''\<rparr>]\<rparr>"
      with other have same: "set [''u1'', ''u3''] = {''u1'', ''u2''}"
        by simp
      have "''u3'' \<in> set [''u1'', ''u3'']"
        by simp
      then have "''u3'' \<in> {''u1'', ''u2''}"
        by (simp only: same)
      then show ?thesis by simp
    qed
  qed
  from createDirectChat_existing_idempotent
         [OF distinct_users signed_in caller listing listed pair rows] only_one
  show ?thesis
    by (elim exE conjE) (simp add: example_remote_def)
qed

section \<open>Typing indicators\<close>

lemma typing_pairs_addTypingUser:
  "typing_pairs (addTypingUser chatId userId s)
   = filter (\<lambda>p. p \<noteq> (chatId, userId)) (typing_pairs s) @ [(chatId, userId)]"
  by (simp add: typing_pairs_def addTypingUser_def filter_map comp_def)

lemma typing_pairs_removeTypingUser:
  "typing_pairs (removeTypingUser chatId userId s)
   = filter (\<lambda>p. p \<noteq> (chatId, userId)) (typing_pairs s)"
  by (simp add: typing_pairs_def removeTypingUser_def filter_map comp_def)

lemma typing_step_refines:
  "set (typing_pairs (typing_step s c)) = spec_typing_step (set (typing_pairs s)) c"
  by (cases c) (auto simp: typing_pairs_addTypingUser typing_pairs_removeTypingUser)

lemma typing_step_distinct:
  "distinct (typing_pairs s) \<Longrightarrow> distinct (typing_pairs (typing_step s c))"
  by (cases c) (auto simp: typing_pairs_addTypingUser typing_pairs_removeTypingUser)

lemma typing_run_refines:
  "set (typing_pairs (typing_run calls s)) = spec_typing_replay calls (set (typing_pairs s))"
  unfolding typing_run_def spec_typing_replay_def
  by (induction calls arbitrary: s) (simp_all add: typing_step_refines)

lemma typing_run_distinct:
  "distinct (typing_pairs s) \<Longrightarrow> distinct (typing_pairs (typing_run calls s))"
  unfolding typing_run_def
  by (induction calls arbitrary: s) (simp_all add: typing_step_distinct)

lemma distinct_keys_at_most_one:
  "distinct (map f xs) \<Longrightarrow> length (filter (\<lambda>x. f x = k) xs) \<le> 1"
proof (induction xs)
  case Nil
  then show ?case by simp
next
  case (Cons x xs)
  show ?case
  proof (cases "f x = k")
    case True
    with Cons.prems have "filter (\<lambda>y. f y = k) xs = []"
      by (auto simp: filter_empty_conv image_iff)
    with True show ?thesis by simp
  next
    case False
    with Cons show ?thesis by simp
  qed
qed

lemma removeTypingUser_absent:
  assumes "(chatId, userId) \<notin> set (typing_pairs s)"
  shows "removeTypingUser chatId userId s = s"
proof -
  have "filter (\<lambda>t. \<not> (t_chat_id t = chatId \<and> t_user_id t = userId)) (typingUsers s)
        = typingUsers s"
    using assms by (auto simp: typing_pairs_def filter_id_conv)
  then show ?thesis
    by (simp add: removeTypingUser_def)
qed

text \<open>
  C8. For every sequence of \<^verbatim>\<open>addTypingUser\<close>/\<^verbatim>\<open>removeTypingUser\<close> calls run from any
  store, the set of (chatId, userId) pairs of the final typing list is the replay of the
  sequence on the set of pairs of the first list, with add as insert-or-replace and remove
  as delete-if-present; removing a pair that has no entry leaves the store as it is; and
  after every step of a sequence run from the initial store, no pair has more than one
  entry in the list.
\<close>

theorem typing_run_refines_replay:
  "set (typing_pairs (typing_run calls s)) = spec_typing_replay calls (set (typing_pairs s))
   \<and> ((chatId, userId) \<notin> set (typing_pairs s) \<longrightarrow> removeTypingUser chatId userId s = s)
   \<and> distinct (typing_pairs (typing_run (take n calls) initial_state))
   \<and> length (filter (\<lambda>t. t_chat_id t = chatId \<and> t_user_id t = userId)
               (typingUsers (typing_run (take n calls) initial_state))) \<le> 1"
proof -
  have start: "distinct (typing_pairs initial_state)"
    by (simp add: typing_pairs_def initial_state_def)
  then have one: "distinct (typing_pairs (typing_run (take n calls) initial_state))"
    by (rule typing_run_distinct)
  then have "length (filter (\<lambda>t. (t_chat_id t, t_user_id t) = (chatId, userId))
               (typingUsers (typing_run (take n calls) initial_state))) \<le> 1"
    unfolding typing_pairs_def by (rule distinct_keys_at_most_one)
  then show ?thesis
    using one by (simp add: typing_run_refines removeTypingUser_absent)
qed

theorem typing_run_refines_replay_witness:
  "typingUsers (typing_run [AddTyping ''c1'' ''u1'', AddTyping ''c1'' ''u2'',
                            AddTyping ''c1'' ''u1'', RemoveTyping ''c2'' ''u1'',
                            RemoveTyping ''c1'' ''u2''] initial_state)
     = [\<lparr>t_user_id = ''u1'', t_chat_id = ''c1'', t_user = None\<rparr>]
   \<and> spec_typing_replay [AddTyping ''c1'' ''u1'', AddTyping ''c1'' ''u2'',
                         AddTyping ''c1'' ''u1'', RemoveTyping ''c2'' ''u1'',
                         RemoveTyping ''c1'' ''u2''] {}
     = {(''c1'', ''u1'')}
   \<and> (''c2'', ''u1'') \<notin> set (typing_pairs initial_state)
   \<and> removeTypingUser ''c2'' ''u1'' initial_state = initial_state"
proof -
  let ?calls = "[AddTyping ''c1'' ''u1'', AddTyping ''c1'' ''u2'', AddTyping ''c1'' ''u1'',
                 RemoveTyping ''c2'' ''u1'', RemoveTyping ''c1'' ''u2'']"
  have run: "typingUsers (typing_run ?calls initial_state)
             = [\<lparr>t_user_id = ''u1'', t_chat_id = ''c1'', t_user = None\<rparr>]"
    by (simp add: typing_run_def addTypingUser_def removeTypingUser_def initial_state_def)
  have absent: "(''c2'', ''u1'') \<notin> set (typing_pairs initial_state)"
    by (simp add: typing_pairs_def initial_state_def)
  note claim = typing_run_refines_replay [of ?calls initial_state "''c2''" "''u1''" 0]
  from claim have "spec_typing_replay ?calls (set (typing_pairs initial_state))
                   = set (typing_pairs (typing_run ?calls initial_state))"
    by simp
  then have replay: "spec_typing_replay ?calls {} = {(''c1'', ''u1'')}"
    using run by (simp add: typing_pairs_def initial_state_def)
  from claim absent have "removeTypingUser ''c2'' ''u1'' initial_state = initial_state"
    by blast
  with run replay absent show ?thesis
    by simp
qed

end
